theory Spec2Isabelle
  imports Main
begin

section \<open>Data model of the screening tool\<close>

text \<open>
  The program is one class, \<open>SystematicReviewTool\<close> (src/main.py). Its articles are
  Python dictionaries with the keys \<open>Sr_No\<close>, \<open>Title\<close>, \<open>ID_Link\<close>, \<open>Abstract\<close>,
  \<open>Authors\<close>, \<open>Source\<close>, \<open>Status\<close> and, once written, \<open>Decision_Date\<close>. The key
  \<open>Decision_Date\<close> is absent until a decision copy or an export writes it, hence an
  option. \<open>Title\<close> is a string or, from the XML parser, Python's \<open>None\<close> (the text
  of a title element without text), hence an option too. Python strings are modelled as
  \<open>string\<close>, one \<open>char\<close> per code point (the code points below 256).
\<close>

record article =
  Sr_No :: int
  Title :: "string option"
  ID_Link :: string
  Abstract :: string
  Authors :: string
  Source :: string
  Status :: string
  Decision_Date :: "string option"

text \<open>
  Exceptions that the modelled code can raise. The message boxes the code opens and the
  files it writes are kept as traces in the state.
\<close>

datatype error = TypeError | AttributeError | IndexError | IOError

datatype dialog =
  ShowInfo string string
| ShowWarning string string
| ShowError string string

datatype stats = NoScreening | Summary int int int int

text \<open>
  The attributes of the tool that the operations read and write. An element of
  \<open>all_articles\<close> is \<open>None\<close> where the Python list holds \<open>None\<close> (the two record
  parsers return \<open>None\<close> when they fail). \<open>stats_var\<close> holds the four numbers that
  \<open>update_results_summary\<close> formats into the summary line: total, included, excluded,
  pending. \<open>files\<close> lists the files written, oldest first, each with the rows handed to
  the data frame; \<open>dialogs\<close> lists the message boxes shown, oldest first (title and the
  literal part of the message).
\<close>

record tool =
  all_articles :: "article option list"
  current_index :: int
  included_articles :: "article list"
  excluded_articles :: "article list"
  inclusion_keywords :: "string list"
  email :: string
  stats_var :: stats
  files :: "(string \<times> article option list) list"
  dialogs :: "dialog list"

text \<open>\<open>__init__\<close> (lines 34-42).\<close>

definition init_tool :: tool where
  "init_tool =
     \<lparr> all_articles = [], current_index = 0, included_articles = [],
       excluded_articles = [], inclusion_keywords = [],
       email = ''your.email@example.com'', stats_var = NoScreening,
       files = [], dialogs = [] \<rparr>"

text \<open>Python list indexing with an int: negative indices count from the end.\<close>

definition py_index :: "'a list \<Rightarrow> int \<Rightarrow> 'a option" where
  "py_index xs i =
     (if 0 \<le> i \<and> i < int (length xs) then Some (xs ! nat i)
      else if i < 0 \<and> - int (length xs) \<le> i then Some (xs ! nat (int (length xs) + i))
      else None)"

section \<open>Review session operations\<close>

text \<open>
  \<open>display_current_article\<close> (lines 635-665) only writes to the text widget; what
  matters to the session is whether it raises: \<open>article['Title']\<close> on a \<open>None\<close> entry
  is a \<open>TypeError\<close>.
\<close>

definition display_current_article :: "tool \<Rightarrow> error option" where
  "display_current_article s =
     (if all_articles s = [] \<or> current_index s \<ge> int (length (all_articles s)) then None
      else (case py_index (all_articles s) (current_index s) of
              None \<Rightarrow> Some IndexError
            | Some None \<Rightarrow> Some TypeError
            | Some (Some a) \<Rightarrow> None))"

text \<open>\<open>update_results_summary\<close> (lines 732-743): pending is total - included - excluded.\<close>

definition pending_count :: "tool \<Rightarrow> int" where
  "pending_count s =
     int (length (all_articles s)) - int (length (included_articles s))
       - int (length (excluded_articles s))"

definition update_results_summary :: "tool \<Rightarrow> tool" where
  "update_results_summary s =
     s\<lparr>stats_var :=
          Summary (int (length (all_articles s))) (int (length (included_articles s)))
            (int (length (excluded_articles s))) (pending_count s)\<rparr>"

text \<open>
  \<open>update_screening_display\<close> (lines 617-633). An exception raised by
  \<open>display_current_article\<close> leaves \<open>update_results_summary\<close> unexecuted. Every operation
  returns the exception raised, if any, and the state as it is then.
\<close>

definition update_screening_display :: "tool \<Rightarrow> error option \<times> tool" where
  "update_screening_display s =
     (if all_articles s = [] then (None, s)
      else (case display_current_article s of
              Some e \<Rightarrow> (Some e, s)
            | None \<Rightarrow> (None, update_results_summary s)))"

text \<open>\<open>next_article\<close> (lines 717-724).\<close>

definition next_article :: "tool \<Rightarrow> error option \<times> tool" where
  "next_article s =
     (if current_index s < int (length (all_articles s)) - 1
      then update_screening_display (s\<lparr>current_index := current_index s + 1\<rparr>)
      else (None, s\<lparr>dialogs := dialogs s @
              [ShowInfo ''Screening Complete''
                 ''You have reviewed all articles! Check the Results tab.'']\<rparr>))"

text \<open>\<open>previous_article\<close> (lines 726-730).\<close>

definition previous_article :: "tool \<Rightarrow> error option \<times> tool" where
  "previous_article s =
     (if current_index s > 0
      then update_screening_display (s\<lparr>current_index := current_index s - 1\<rparr>)
      else (None, s))"

text \<open>
  \<open>include_article\<close> and \<open>exclude_article\<close> (lines 693-715). \<open>now\<close> is the text of
  \<open>datetime.now().strftime(...)\<close>. \<open>.copy()\<close> on a \<open>None\<close> entry is an
  \<open>AttributeError\<close>. The copy gets the new status and the date; the live entry gets the
  new status only.
\<close>

definition decide :: "string \<Rightarrow> string \<Rightarrow> article \<Rightarrow> article" where
  "decide verdict now a = a\<lparr>Status := verdict, Decision_Date := Some now\<rparr>"

definition include_article :: "string \<Rightarrow> tool \<Rightarrow> error option \<times> tool" where
  "include_article now s =
     (if all_articles s \<noteq> [] \<and> 0 \<le> current_index s
          \<and> current_index s < int (length (all_articles s))
      then (case all_articles s ! nat (current_index s) of
              None \<Rightarrow> (Some AttributeError, s)
            | Some a \<Rightarrow>
                next_article
                  (s\<lparr>included_articles := included_articles s @ [decide ''Included'' now a],
                     all_articles := (all_articles s)
                        [nat (current_index s) := Some (a\<lparr>Status := ''Included''\<rparr>)]\<rparr>))
      else (None, s))"

definition exclude_article :: "string \<Rightarrow> tool \<Rightarrow> error option \<times> tool" where
  "exclude_article now s =
     (if all_articles s \<noteq> [] \<and> 0 \<le> current_index s
          \<and> current_index s < int (length (all_articles s))
      then (case all_articles s ! nat (current_index s) of
              None \<Rightarrow> (Some AttributeError, s)
            | Some a \<Rightarrow>
                next_article
                  (s\<lparr>excluded_articles := excluded_articles s @ [decide ''Excluded'' now a],
                     all_articles := (all_articles s)
                        [nat (current_index s) := Some (a\<lparr>Status := ''Excluded''\<rparr>)]\<rparr>))
      else (None, s))"

text \<open>
  The three states of the review session as the specification names them: no articles,
  cursor on an article, cursor past the last article.
\<close>

datatype phase = Empty | Reviewing | Complete

definition phase_of :: "tool \<Rightarrow> phase" where
  "phase_of s =
     (if all_articles s = [] then Empty
      else if 0 \<le> current_index s \<and> current_index s < int (length (all_articles s))
      then Reviewing else Complete)"

section \<open>Record normalizer\<close>

text \<open>
  A record of the structured client (\<open>Entrez.read\<close>): nested dictionaries, a key that
  is missing is \<open>None\<close>. \<open>AbstractText\<close> stands for
  \<open>article.get('Abstract', {}).get('AbstractText', [])\<close>: a list of segments or one
  string, \<open>None\<close> when either key is missing.
\<close>

datatype abstract_text = AbstractList "string list" | AbstractStr string

record bio_author =
  LastName :: "string option"
  ForeName :: "string option"
  CollectiveName :: "string option"

record bio_article =
  ArticleTitle :: "string option"
  AbstractText :: "abstract_text option"
  AuthorList :: "bio_author list"

record medline_citation =
  Article :: "bio_article option"
  PMID :: "string option"

record bio_record =
  MedlineCitation :: "medline_citation option"

text \<open>\<open>sep.join(xs)\<close>.\<close>

fun join :: "string \<Rightarrow> string list \<Rightarrow> string" where
  "join sep [] = []"
| "join sep [x] = x"
| "join sep (x # y # ys) = x @ sep @ join sep (y # ys)"

definition bio_abstract :: "abstract_text option \<Rightarrow> string" where
  "bio_abstract t =
     (case t of
        None \<Rightarrow> []
      | Some (AbstractList xs) \<Rightarrow> (if xs = [] then [] else join '' '' xs)
      | Some (AbstractStr x) \<Rightarrow> x)"

fun bio_authors :: "bio_author list \<Rightarrow> string list" where
  "bio_authors [] = []"
| "bio_authors (a # as) =
     (case (LastName a, ForeName a) of
        (Some l, Some f) \<Rightarrow> (l @ '' '' @ f) # bio_authors as
      | _ \<Rightarrow> (case CollectiveName a of
                 Some c \<Rightarrow> c # bio_authors as
               | None \<Rightarrow> bio_authors as))"

definition authors_str :: "string list \<Rightarrow> string" where
  "authors_str authors = (if authors = [] then ''No authors listed'' else join ''; '' authors)"

text \<open>
  \<open>parse_pubmed_record\<close> (lines 382-421). A missing \<open>MedlineCitation\<close> or \<open>Article\<close>
  key raises \<open>KeyError\<close> inside the function's own \<open>try\<close>; the handler prints and
  returns \<open>None\<close>. So the function never raises: its result is \<open>None\<close> or a dictionary.
\<close>

definition parse_pubmed_record :: "bio_record \<Rightarrow> int \<Rightarrow> article option" where
  "parse_pubmed_record record' sr_no =
     (case MedlineCitation record' of
        None \<Rightarrow> None
      | Some mc \<Rightarrow>
          (case Article mc of
             None \<Rightarrow> None
           | Some art \<Rightarrow>
               Some \<lparr> Sr_No = sr_no,
                      Title = Some (case ArticleTitle art of None \<Rightarrow> ''No title'' | Some t \<Rightarrow> t),
                      ID_Link = ''PMID: '' @ (case PMID mc of None \<Rightarrow> [] | Some p \<Rightarrow> p),
                      Abstract = bio_abstract (AbstractText art),
                      Authors = authors_str (bio_authors (AuthorList art)),
                      Source = ''PubMed'',
                      Status = ''Pending'',
                      Decision_Date = None \<rparr>))"

text \<open>
  A \<open>PubmedArticle\<close> element of the raw XML reply. An element is given by what
  \<open>find\<close> and \<open>.text\<close> return for it: \<open>None\<close> when \<open>find\<close> finds no such element,
  \<open>Some None\<close> when the element is there and its \<open>.text\<close> is \<open>None\<close> (an element
  without text), \<open>Some (Some t)\<close> when its text is \<open>t\<close>. \<open>x_abstract\<close> lists the
  \<open>.text\<close> of the \<open>AbstractText\<close> elements under \<open>Abstract\<close>.
\<close>

type_synonym xml_text = "string option option"

record xml_author =
  x_last_name :: xml_text
  x_fore_name :: xml_text
  x_collective_name :: xml_text

record xml_article =
  x_title :: xml_text
  x_abstract :: "string option list option"
  x_author_list :: "xml_author list option"

record xml_record =
  x_article :: "xml_article option"
  x_pmid :: xml_text

text \<open>A string or \<open>None\<close> formatted inside an f-string.\<close>

definition py_str :: "string option \<Rightarrow> string" where
  "py_str v = (case v of None \<Rightarrow> ''None'' | Some t \<Rightarrow> t)"

text \<open>
  The loop over the authors (lines 500-508): the list \<open>authors\<close> gets a formatted
  string for an author with both names, and the \<open>.text\<close> of the collective name
  otherwise, which may be \<open>None\<close>.
\<close>

fun xml_authors :: "xml_author list \<Rightarrow> string option list" where
  "xml_authors [] = []"
| "xml_authors (a # as) =
     (case (x_last_name a, x_fore_name a) of
        (Some l, Some f) \<Rightarrow> Some (py_str l @ '' '' @ py_str f) # xml_authors as
      | _ \<Rightarrow> (case x_collective_name a of
                 Some c \<Rightarrow> c # xml_authors as
               | None \<Rightarrow> xml_authors as))"

text \<open>The texts that are neither \<open>None\<close> nor empty (\<open>if text_elem.text\<close>), in order.\<close>

fun truthy_texts :: "string option list \<Rightarrow> string list" where
  "truthy_texts [] = []"
| "truthy_texts (None # ts) = truthy_texts ts"
| "truthy_texts (Some t # ts) = (if t = [] then truthy_texts ts else t # truthy_texts ts)"

text \<open>
  \<open>parse_pubmed_xml\<close> (lines 474-523; the definition at lines 423-472 is replaced by
  this one when the class body runs). Without an \<open>Article\<close> element, \<open>article.find\<close>
  raises \<open>AttributeError\<close> inside the \<open>try\<close>; with a \<open>None\<close> among the authors,
  \<open>'; '.join(authors)\<close> raises \<open>TypeError\<close> there. In both cases the handler returns
  \<open>None\<close>. A title element without text gives the title \<open>None\<close>.
\<close>

definition parse_pubmed_xml :: "xml_record \<Rightarrow> int \<Rightarrow> article option" where
  "parse_pubmed_xml pubmed_article sr_no =
     (case x_article pubmed_article of
        None \<Rightarrow> None
      | Some art \<Rightarrow>
          (let authors = (case x_author_list art of None \<Rightarrow> [] | Some as \<Rightarrow> xml_authors as)
           in if None \<in> set authors then None
              else
                Some \<lparr> Sr_No = sr_no,
                       Title = (case x_title art of None \<Rightarrow> Some ''No title'' | Some t \<Rightarrow> t),
                       ID_Link = ''PMID: '' @ (case x_pmid pubmed_article of
                                                 None \<Rightarrow> []
                                               | Some p \<Rightarrow> py_str p),
                       Abstract = (case x_abstract art of
                                     None \<Rightarrow> []
                                   | Some parts \<Rightarrow> join '' '' (truthy_texts parts)),
                       Authors = authors_str (List.map_filter id authors),
                       Source = ''PubMed'',
                       Status = ''Pending'',
                       Decision_Date = None \<rparr>))"

section \<open>Retrieval coordinator\<close>

text \<open>
  The replies of the outside world to one retrieval. \<open>bio_response\<close> is \<open>None\<close> when a
  call of the structured client raises, else the list \<open>records['PubmedArticle']\<close> (empty
  when the id list is empty). The raw HTTP path fetches in batches of 100 ids; a batch
  is the list of its \<open>PubmedArticle\<close> elements, or \<open>FetchError\<close> when the request or the
  XML parser raises. \<open>csv_file\<close> is the data frame \<open>pd.read_csv\<close> returns (\<open>None\<close> when
  it raises); a cell is given by its \<open>str()\<close> and its truth value. \<open>save_ok\<close> tells
  whether writing \<open>search_results.csv\<close> succeeds.

  A data frame has an index: one label for each row. \<open>pd.read_csv\<close> labels the rows
  0, 1, 2, ... by default; when the data rows of the file have one field more than the
  header, it takes the leading field of each row as the row's label instead. A label is
  an integer, or something that cannot be added to an integer (a string, a tuple of a
  multi-index). A label that is a float is outside the model.
\<close>

datatype xml_batch = FetchError | Fetched "xml_record list"

datatype direct_response = SearchFailed | SearchOk "xml_batch list"

record cell =
  cell_str :: string
  cell_truth :: bool

datatype index_label = IntLabel int | OtherLabel

record dataframe =
  columns :: "string list"
  index :: "index_label list"
  rows :: "cell list list"

text \<open>The index \<open>pd.read_csv\<close> gives by default to a frame of \<open>k\<close> rows.\<close>

definition default_index :: "nat \<Rightarrow> index_label list" where
  "default_index k = map (\<lambda>i. IntLabel (int i)) [0..<k]"

record search_env =
  pubmed_var :: bool
  cochrane_var :: bool
  cochrane_file_var :: string
  BIOPYTHON_AVAILABLE :: bool
  bio_response :: "bio_record list option"
  direct_response :: direct_response
  csv_file :: "dataframe option"
  save_ok :: bool

text \<open>
  The loop of \<open>search_pubmed_direct\<close> (lines 352-375): each record is parsed with the
  number \<open>len(articles) + 1\<close> and the result is appended, \<open>None\<close> included, since
  \<open>parse_pubmed_xml\<close> does not raise. An exception of a fetch ends the function with
  the articles so far (lines 377-380).
\<close>

fun parse_batch :: "xml_record list \<Rightarrow> article option list \<Rightarrow> article option list" where
  "parse_batch [] articles = articles"
| "parse_batch (r # rs) articles =
     parse_batch rs (articles @ [parse_pubmed_xml r (int (length articles) + 1)])"

fun fetch_batches :: "xml_batch list \<Rightarrow> article option list \<Rightarrow> article option list" where
  "fetch_batches [] articles = articles"
| "fetch_batches (FetchError # bs) articles = articles"
| "fetch_batches (Fetched rs # bs) articles = fetch_batches bs (parse_batch rs articles)"

definition search_pubmed_direct :: "search_env \<Rightarrow> article option list" where
  "search_pubmed_direct env =
     (case direct_response env of
        SearchFailed \<Rightarrow> []
      | SearchOk batches \<Rightarrow> fetch_batches batches [])"

text \<open>
  \<open>search_pubmed\<close> (lines 288-324). In the loop of lines 309-315 the result of
  \<open>parse_pubmed_record(record, i + 1)\<close> is appended whatever it is: the handler of
  the loop is reached only by an exception, and \<open>parse_pubmed_record\<close> raises none.
\<close>

definition search_pubmed :: "search_env \<Rightarrow> article option list" where
  "search_pubmed env =
     (if BIOPYTHON_AVAILABLE env then
        (case bio_response env of
           None \<Rightarrow> search_pubmed_direct env
         | Some records \<Rightarrow>
             map (\<lambda>(i, record'). parse_pubmed_record record' (int i + 1)) (enumerate 0 records))
      else search_pubmed_direct env)"

text \<open>
  \<open>load_cochrane_csv\<close> (lines 525-571). \<open>actual_columns\<close> maps each field to the first
  of its names that is a column; \<open>row.get(name, default)\<close> gives the default when the
  name is not a column. \<open>df.iterrows()\<close> yields each row with its label \<open>i\<close>, and the
  number of the article is \<open>len(self.all_articles) + i + 1\<close>: with a label that is not
  a number the sum raises \<open>TypeError\<close>, the handler of the row prints, and the loop goes
  on with the next row.
\<close>

definition actual_column :: "string list \<Rightarrow> string list \<Rightarrow> string" where
  "actual_column cols possible_names =
     (case find (\<lambda>name. name \<in> set cols) possible_names of None \<Rightarrow> [] | Some name \<Rightarrow> name)"

definition row_get :: "string list \<Rightarrow> cell list \<Rightarrow> string \<Rightarrow> cell \<Rightarrow> cell" where
  "row_get cols row name dflt =
     (case map_of (zip cols row) name of None \<Rightarrow> dflt | Some v \<Rightarrow> v)"

definition cochrane_article :: "string list \<Rightarrow> nat \<Rightarrow> int \<Rightarrow> cell list \<Rightarrow> article" where
  "cochrane_article cols n_all i row =
     (let title = row_get cols row (actual_column cols [''Title'', ''title'', ''TITLE''])
                    \<lparr>cell_str = ''No title'', cell_truth = True\<rparr>;
          authors = row_get cols row (actual_column cols [''Authors'', ''authors'', ''AUTHORS'', ''Author''])
                    \<lparr>cell_str = ''No authors listed'', cell_truth = True\<rparr>;
          abstract = row_get cols row (actual_column cols [''Abstract'', ''abstract'', ''ABSTRACT''])
                    \<lparr>cell_str = [], cell_truth = False\<rparr>;
          doi = row_get cols row (actual_column cols [''DOI'', ''doi'', ''ID'', ''id''])
                    \<lparr>cell_str = [], cell_truth = False\<rparr>
      in \<lparr> Sr_No = int n_all + i + 1,
           Title = Some (cell_str title),
           ID_Link = (if cell_truth doi then ''DOI: '' @ cell_str doi else ''No ID''),
           Abstract = cell_str abstract,
           Authors = cell_str authors,
           Source = ''Cochrane'',
           Status = ''Pending'',
           Decision_Date = None \<rparr>)"

fun cochrane_rows ::
  "string list \<Rightarrow> nat \<Rightarrow> (index_label \<times> cell list) list \<Rightarrow> article option list" where
  "cochrane_rows cols n_all [] = []"
| "cochrane_rows cols n_all ((IntLabel i, row) # rest) =
     Some (cochrane_article cols n_all i row) # cochrane_rows cols n_all rest"
| "cochrane_rows cols n_all ((OtherLabel, row) # rest) = cochrane_rows cols n_all rest"

definition load_cochrane_csv :: "search_env \<Rightarrow> tool \<Rightarrow> article option list \<times> tool" where
  "load_cochrane_csv env s =
     (case csv_file env of
        None \<Rightarrow> ([], s\<lparr>dialogs := dialogs s @ [ShowError ''Error'' ''Error loading Cochrane CSV: '']\<rparr>)
      | Some df \<Rightarrow>
          (cochrane_rows (columns df) (length (all_articles s)) (zip (index df) (rows df)), s))"

text \<open>
  \<open>save_search_results\<close> (lines 573-577) and \<open>display_search_results\<close> (lines 579-602).
  \<open>pd.DataFrame(self.all_articles)\<close>: when the first entry is a dictionary the
  constructor reads the keys of every entry, an \<open>AttributeError\<close> on an entry that is
  \<open>None\<close>; when the first entry is \<open>None\<close> the list is taken as one column of objects
  and the constructor raises nothing. \<open>display_search_results\<close> reads
  \<open>article['Source']\<close> of every entry: a \<open>TypeError\<close> when an entry is \<open>None\<close>.
\<close>

definition dataframe_raises :: "article option list \<Rightarrow> bool" where
  "dataframe_raises es = (case es of Some a # rest \<Rightarrow> None \<in> set rest | _ \<Rightarrow> False)"

definition save_search_results :: "search_env \<Rightarrow> tool \<Rightarrow> error option \<times> tool" where
  "save_search_results env s =
     (if all_articles s \<noteq> [] then
        (if dataframe_raises (all_articles s) then (Some AttributeError, s)
         else if save_ok env then
           (None, s\<lparr>files := files s @ [(''search_results.csv'', all_articles s)]\<rparr>)
         else (Some IOError, s))
      else (None, s))"

definition display_search_results :: "tool \<Rightarrow> error option" where
  "display_search_results s = (if None \<in> set (all_articles s) then Some TypeError else None)"

text \<open>
  \<open>perform_search\<close> (lines 249-286): \<open>aggregate\<close> is lines 252-268, the two sources
  in turn; \<open>search_body\<close> is the whole \<open>try\<close> block, run as one step;
  \<open>perform_search\<close> adds the handler, which reports the exception in a message box.
  The search terms and the cap reach only the provider, whose replies are in \<open>env\<close>.
  The program runs \<open>perform_search\<close> in a worker thread, which sleeps half a second
  after each source (lines 260 and 268) while the buttons of the session stay enabled;
  the functions here give the state at the end of the block, and \<open>aggregate\<close> gives the
  state during the sleep of line 268. How the callbacks of the user interleave with the
  worker is not modelled.
\<close>

definition aggregate :: "search_env \<Rightarrow> tool \<Rightarrow> tool" where
  "aggregate env s =
     (let s1 = s\<lparr>all_articles := []\<rparr>;
          s2 = (if pubmed_var env
                then s1\<lparr>all_articles := all_articles s1 @ search_pubmed env\<rparr>
                else s1)
      in if cochrane_var env \<and> cochrane_file_var env \<noteq> []
         then (case load_cochrane_csv env s2 of
                 (cochrane_articles, s') \<Rightarrow>
                   s'\<lparr>all_articles := all_articles s' @ cochrane_articles\<rparr>)
         else s2)"

definition search_body :: "search_env \<Rightarrow> tool \<Rightarrow> error option \<times> tool" where
  "search_body env s =
     (let s3 = aggregate env s
      in if all_articles s3 \<noteq> [] then
           (case save_search_results env s3 of
              (Some e, s4) \<Rightarrow> (Some e, s4)
            | (None, s4) \<Rightarrow>
                (case display_search_results s4 of
                   Some e \<Rightarrow> (Some e, s4)
                 | None \<Rightarrow> update_screening_display (s4\<lparr>current_index := 0\<rparr>)))
         else (None, s3))"

definition perform_search :: "search_env \<Rightarrow> tool \<Rightarrow> tool" where
  "perform_search env s =
     (case search_body env s of
        (None, s') \<Rightarrow> s'
      | (Some e, s') \<Rightarrow>
          s'\<lparr>dialogs := dialogs s' @ [ShowError ''Search Error'' ''An error occurred during search: '']\<rparr>)"

section \<open>Input validation\<close>

text \<open>
  \<open>str.strip()\<close> removes the characters for which \<open>str.isspace()\<close> holds; below 256
  these are 9-13, 28-32, 133 and 160. \<open>int(text)\<close> skips, at both ends, the same
  characters except 28-31.
\<close>

definition int_space :: "char \<Rightarrow> bool" where
  "int_space c = (c \<in> set [CHR 0x09, CHR 0x0A, CHR 0x0B, CHR 0x0C, CHR 0x0D, CHR 0x20,
                          CHR 0x85, CHR 0xA0])"

definition py_isspace :: "char \<Rightarrow> bool" where
  "py_isspace c = (int_space c \<or> c \<in> set [CHR 0x1C, CHR 0x1D, CHR 0x1E, CHR 0x1F])"

definition strip_with :: "(char \<Rightarrow> bool) \<Rightarrow> string \<Rightarrow> string" where
  "strip_with p s = rev (dropWhile p (rev (dropWhile p s)))"

definition strip :: "string \<Rightarrow> string" where
  "strip s = strip_with py_isspace s"

definition is_digit :: "char \<Rightarrow> bool" where
  "is_digit c = (c \<in> set ''0123456789'')"

definition digit_val :: "char \<Rightarrow> int" where
  "digit_val c = int (of_char c) - 48"

text \<open>
  The digits of a decimal literal after its first digit: digits, with single underscores
  allowed between two digits.
\<close>

fun digit_run :: "int \<Rightarrow> string \<Rightarrow> int option" where
  "digit_run acc [] = Some acc"
| "digit_run acc [c] = (if is_digit c then Some (10 * acc + digit_val c) else None)"
| "digit_run acc (c # d # ds) =
     (if is_digit c then digit_run (10 * acc + digit_val c) (d # ds)
      else if c = CHR ''_'' \<and> is_digit d then digit_run (10 * acc + digit_val d) ds
      else None)"

text \<open>
  \<open>int(text)\<close> for a string, base 10: \<open>None\<close> is \<open>ValueError\<close>. \<open>max_str_digits\<close> is
  the interpreter's limit on the number of digits (\<open>sys.get_int_max_str_digits()\<close>,
  4300 unless configured, 0 for no limit): a literal with more digits is a
  \<open>ValueError\<close> too.
\<close>

definition py_int :: "nat \<Rightarrow> string \<Rightarrow> int option" where
  "py_int max_str_digits text =
     (let t = strip_with int_space text;
          neg = (t \<noteq> [] \<and> hd t = CHR ''-'');
          u = (if t \<noteq> [] \<and> (hd t = CHR ''-'' \<or> hd t = CHR ''+'') then tl t else t)
      in case u of
           [] \<Rightarrow> None
         | c # cs \<Rightarrow>
             if \<not> is_digit c then None
             else if 0 < max_str_digits \<and> max_str_digits < length (filter is_digit u) then None
             else map_option (\<lambda>v. if neg then - v else v) (digit_run (digit_val c) cs))"

text \<open>
  \<open>start_search\<close> (lines 221-247). The three arguments are the contents of the entry
  fields; the result is the argument pair of the worker thread it starts, \<open>None\<close> when it
  returns without starting one. \<open>self.email\<close> is assigned before any check.
\<close>

definition start_search ::
  "nat \<Rightarrow> string \<Rightarrow> string \<Rightarrow> string \<Rightarrow> tool \<Rightarrow> (string \<times> int) option \<times> tool" where
  "start_search max_str_digits email_var search_var max_results_var s =
     (let s1 = s\<lparr>email := strip email_var\<rparr>;
          search_terms = strip search_var
      in if search_terms = [] then
           (None, s1\<lparr>dialogs := dialogs s1 @ [ShowError ''Error'' ''Please enter search terms'']\<rparr>)
         else if email s1 = [] then
           (None, s1\<lparr>dialogs := dialogs s1 @ [ShowError ''Error'' ''Please enter your email address'']\<rparr>)
         else (case py_int max_str_digits max_results_var of
                 None \<Rightarrow>
                   (None, s1\<lparr>dialogs := dialogs s1 @
                            [ShowError ''Error'' ''Please enter a valid number for max results'']\<rparr>)
               | Some max_results \<Rightarrow> (Some (search_terms, max_results), s1)))"

section \<open>Export writer\<close>





definition export_excluded :: "string \<Rightarrow> bool \<Rightarrow> tool \<Rightarrow> tool" where
  "export_excluded stamp sink_ok s =
     (if excluded_articles s = [] then
        s\<lparr>dialogs := dialogs s @ [ShowWarning ''No Data'' ''No excluded articles to export'']\<rparr>
      else if sink_ok then
        s\<lparr>files := files s @ [(''excluded_'' @ stamp @ ''.csv'', map Some (excluded_articles s))],
          dialogs := dialogs s @
            [ShowInfo ''Export Successful''
               (''Excluded articles exported to '' @ ''excluded_'' @ stamp @ ''.csv'')]\<rparr>
      else
        s\<lparr>dialogs := dialogs s @
            [ShowError ''Export Error'' ''Error exporting excluded articles: '']\<rparr>)"

section \<open>Highlighter\<close>

text \<open>
  \<open>str.lower()\<close> on the code points below 256: A-Z and the accented capitals 192-222
  (without 215, the multiplication sign) move up by 32. With \<open>re.IGNORECASE\<close> a
  literal pattern character matches a text character exactly when the two have the same
  lower case.
\<close>

definition lower_char :: "char \<Rightarrow> char" where
  "lower_char c =
     (let n = (of_char c :: nat)
      in if (65 \<le> n \<and> n \<le> 90) \<or> (192 \<le> n \<and> n \<le> 222 \<and> n \<noteq> 215)
         then char_of (n + 32) else c)"

definition lower :: "string \<Rightarrow> string" where
  "lower s = map lower_char s"

definition ci_prefix :: "string \<Rightarrow> string \<Rightarrow> bool" where
  "ci_prefix kw rest = (length kw \<le> length rest \<and> lower kw = lower (take (length kw) rest))"

text \<open>
  \<open>re.split('(k1|k2|...)', text, flags=re.IGNORECASE)\<close> where every \<open>ki\<close> is an
  escaped keyword, hence a literal. The regex engine looks for the leftmost position
  where an alternative matches and takes the first alternative that does. \<open>split\<close>
  returns the text before the match, the match (the pattern is one group), and goes on
  behind the match; after an empty match the next match at the same position must not be
  empty (\<open>must_advance\<close>). \<open>acc\<close> holds, reversed, the characters passed since the
  last match.
\<close>

definition first_alternative :: "string list \<Rightarrow> bool \<Rightarrow> string \<Rightarrow> string option" where
  "first_alternative kws must_advance rest =
     find (\<lambda>kw. ci_prefix kw rest \<and> \<not> (must_advance \<and> kw = [])) kws"

function re_split :: "string list \<Rightarrow> bool \<Rightarrow> string \<Rightarrow> string \<Rightarrow> string list" where
  "re_split kws must_advance acc rest =
     (case first_alternative kws must_advance rest of
        Some kw \<Rightarrow>
          rev acc # take (length kw) rest
            # re_split kws (kw = []) [] (drop (length kw) rest)
      | None \<Rightarrow>
          (case rest of
             [] \<Rightarrow> [rev acc]
           | c # cs \<Rightarrow> re_split kws False (c # acc) cs))"
  by pat_completeness auto

termination re_split
proof (relation "measure (\<lambda>(kws, m, acc, rest). 2 * length rest + (if m then 0 else 1))")
  show "wf (measure (\<lambda>(kws, m, acc, rest). 2 * length rest + (if m then 0 else 1)))"
    by simp
next
  fix kws :: "string list" and must_advance :: bool and acc rest kw :: string
  assume "first_alternative kws must_advance rest = Some kw"
  then have "ci_prefix kw rest" and q: "\<not> (must_advance \<and> kw = [])"
    by (auto simp: first_alternative_def find_Some_iff)
  then have "length kw \<le> length rest"
    by (simp add: ci_prefix_def)
  with q show "((kws, kw = [], [], drop (length kw) rest), (kws, must_advance, acc, rest))
        \<in> measure (\<lambda>(kws, m, acc, rest). 2 * length rest + (if m then 0 else 1))"
    by (cases kw) auto
next
  fix kws :: "string list" and must_advance :: bool and acc rest :: string and c cs
  assume "rest = c # cs"
  then show "((kws, False, c # acc, cs), (kws, must_advance, acc, rest))
        \<in> measure (\<lambda>(kws, m, acc, rest). 2 * length rest + (if m then 0 else 1))"
    by simp
qed

declare re_split.simps [simp del]

text \<open>
  \<open>insert_text_with_highlights\<close> (lines 667-691). \<open>highlight_calls\<close> lists the calls
  \<open>article_display.insert(tk.END, part, tag)\<close> it makes, in order, as pairs of text and
  tag. The text widget is modelled by its characters, each with the tag it was inserted
  with; inserting at the end appends, and inserting the empty string adds nothing.
\<close>

definition highlight_calls :: "string list \<Rightarrow> string \<Rightarrow> string \<Rightarrow> (string \<times> string) list" where
  "highlight_calls kws text tag =
     (if kws = [] then [(text, tag)]
      else map (\<lambda>part. if lower part \<in> set (map lower kws) then (part, ''highlight'')
                        else (part, tag))
             (re_split kws False [] text))"

type_synonym widget = "(char \<times> string) list"

definition tk_insert :: "widget \<Rightarrow> string \<times> string \<Rightarrow> widget" where
  "tk_insert w call = w @ map (\<lambda>c. (c, snd call)) (fst call)"

definition insert_text_with_highlights :: "string list \<Rightarrow> widget \<Rightarrow> string \<Rightarrow> string \<Rightarrow> widget" where
  "insert_text_with_highlights kws w text tag = foldl tk_insert w (highlight_calls kws text tag)"

text \<open>
  The spans of a widget content: its maximal runs of characters under one tag, each
  with its tag.
\<close>

fun spans :: "widget \<Rightarrow> (string \<times> string) list" where
  "spans [] = []"
| "spans ((c, t) # w) =
     (case spans w of
        [] \<Rightarrow> [([c], t)]
      | (txt, t') # rest \<Rightarrow> if t = t' then (c # txt, t') # rest else ([c], t) # (txt, t') # rest)"

text \<open>\<open>text.split(',')\<close> and \<open>update_keywords\<close> (lines 604-615).\<close>

fun split_char :: "char \<Rightarrow> string \<Rightarrow> string list" where
  "split_char sep [] = [[]]"
| "split_char sep (c # cs) =
     (if c = sep then [] # split_char sep cs
      else (case split_char sep cs of
              [] \<Rightarrow> [[c]]
            | p # ps \<Rightarrow> (c # p) # ps))"

definition update_keywords :: "string \<Rightarrow> tool \<Rightarrow> error option \<times> tool" where
  "update_keywords keywords_var s =
     (let keywords_text = strip keywords_var;
          s1 = (if keywords_text \<noteq> [] then
                  s\<lparr>inclusion_keywords :=
                       map (\<lambda>kw. lower (strip kw))
                         (filter (\<lambda>kw. strip kw \<noteq> []) (split_char CHR '','' keywords_text)),
                    dialogs := dialogs s @ [ShowInfo ''Keywords Updated'' ''Updated '']\<rparr>
                else s\<lparr>inclusion_keywords := []\<rparr>)
      in if all_articles s1 \<noteq> [] \<and> 0 \<le> current_index s1
            \<and> current_index s1 < int (length (all_articles s1))
         then (display_current_article s1, s1)
         else (None, s1))"

section \<open>Runs of the tool\<close>

text \<open>
  The articles of a batch: its entries that are dictionaries, in order.
\<close>

fun parsed :: "article option list \<Rightarrow> article list" where
  "parsed [] = []"
| "parsed (None # es) = parsed es"
| "parsed (Some a # es) = a # parsed es"

text \<open>
  The user's actions on the screening tab, and a sequence of them run from a state; an
  exception raised in a callback is printed by the toolkit and the tool goes on from the
  state reached.
\<close>

datatype session_op = Include string | Exclude string | Next | Previous

fun apply_op :: "session_op \<Rightarrow> tool \<Rightarrow> tool" where
  "apply_op (Include now) s = snd (include_article now s)"
| "apply_op (Exclude now) s = snd (exclude_article now s)"
| "apply_op Next s = snd (next_article s)"
| "apply_op Previous s = snd (previous_article s)"

fun run_ops :: "session_op list \<Rightarrow> tool \<Rightarrow> tool" where
  "run_ops [] s = s"
| "run_ops (op # ops) s = run_ops ops (apply_op op s)"

text \<open>
  Navigating back to the article at index \<open>i\<close> after a decision on it: one step back
  when the decision moved the cursor on, nothing when it did not.
\<close>

definition return_to :: "int \<Rightarrow> tool \<Rightarrow> tool" where
  "return_to i s = (if current_index s = i then s else apply_op Previous s)"

text \<open>
  A stretch of a batch that starts at position \<open>n\<close> (from 0) and comes from the source
  \<open>src\<close> is numbered in place when every dictionary in it carries its position plus one
  as \<open>Sr_No\<close> and \<open>src\<close> as \<open>Source\<close>.
\<close>

fun numbered_from :: "nat \<Rightarrow> string \<Rightarrow> article option list \<Rightarrow> bool" where
  "numbered_from n src [] = True"
| "numbered_from n src (None # es) = numbered_from (Suc n) src es"
| "numbered_from n src (Some a # es) =
     (Sr_No a = int n + 1 \<and> Source a = src \<and> numbered_from (Suc n) src es)"

text \<open>
  The two parts of the batch that \<open>aggregate\<close> builds: what the search provider gave,
  then what the manual import gave on top of it.
\<close>

definition provider_part :: "search_env \<Rightarrow> article option list" where
  "provider_part env = (if pubmed_var env then search_pubmed env else [])"

definition import_part :: "search_env \<Rightarrow> article option list" where
  "import_part env =
     (if cochrane_var env \<and> cochrane_file_var env \<noteq> []
      then fst (load_cochrane_csv env (init_tool\<lparr>all_articles := provider_part env\<rparr>))
      else [])"

section \<open>Sample inputs\<close>

text \<open>
  Concrete replies of the outside world, used to run the definitions: a manual-import
  file of \<open>k\<close> rows with the one column \<open>Title\<close>; a retrieval with both sources switched
  off; a reply of the structured client with one well-formed record and one record
  without the key \<open>MedlineCitation\<close>.
\<close>

definition csv_env :: "nat \<Rightarrow> search_env" where
  "csv_env k =
     \<lparr> pubmed_var = False, cochrane_var = True, cochrane_file_var = ''review.csv'',
       BIOPYTHON_AVAILABLE = True, bio_response = None, direct_response = SearchFailed,
       csv_file = Some \<lparr> columns = [''Title''], index = default_index k,
                         rows = replicate k [\<lparr>cell_str = ''Trial'', cell_truth = True\<rparr>] \<rparr>,
       save_ok = True \<rparr>"

definition off_env :: search_env where
  "off_env =
     \<lparr> pubmed_var = False, cochrane_var = False, cochrane_file_var = [],
       BIOPYTHON_AVAILABLE = True, bio_response = None, direct_response = SearchFailed,
       csv_file = None, save_ok = True \<rparr>"

definition good_record :: bio_record where
  "good_record =
     \<lparr> MedlineCitation = Some
         \<lparr> Article = Some \<lparr> ArticleTitle = Some ''Trial'', AbstractText = None, AuthorList = [] \<rparr>,
           PMID = Some ''1'' \<rparr> \<rparr>"

definition bad_record :: bio_record where
  "bad_record = \<lparr> MedlineCitation = None \<rparr>"

definition sample_article :: "int \<Rightarrow> article" where
  "sample_article n =
     \<lparr> Sr_No = n, Title = Some ''Trial'', ID_Link = ''No ID'', Abstract = [],
       Authors = ''No authors listed'', Source = ''Cochrane'', Status = ''Pending'',
       Decision_Date = None \<rparr>"

definition bio_env :: "bio_record list \<Rightarrow> search_env" where
  "bio_env records =
     \<lparr> pubmed_var = True, cochrane_var = False, cochrane_file_var = [],
       BIOPYTHON_AVAILABLE = True, bio_response = Some records, direct_response = SearchFailed,
       csv_file = None, save_ok = True \<rparr>"

text \<open>
  A manual-import file whose two data rows have one field more than the header:
  \<open>Title\<close> / \<open>5,Trial A\<close> / \<open>5,Trial B\<close>. The leading field labels the rows, so
  both rows have the label 5.
\<close>

definition labelled_env :: search_env where
  "labelled_env =
     \<lparr> pubmed_var = False, cochrane_var = True, cochrane_file_var = ''review.csv'',
       BIOPYTHON_AVAILABLE = True, bio_response = None, direct_response = SearchFailed,
       csv_file = Some \<lparr> columns = [''Title''], index = [IntLabel 5, IntLabel 5],
                         rows = [[\<lparr>cell_str = ''Trial A'', cell_truth = True\<rparr>],
                                 [\<lparr>cell_str = ''Trial B'', cell_truth = True\<rparr>]] \<rparr>,
       save_ok = True \<rparr>"

text \<open>The tool after a first retrieval that imported \<open>k\<close> rows.\<close>

definition loaded :: "nat \<Rightarrow> tool" where
  "loaded k = perform_search (csv_env k) init_tool"

section \<open>Properties of the session operations\<close>

text \<open>
  What the display refresh and the two moves do to the article list, the cursor and the
  decision lists.
\<close>

lemma usd_cases:
  "snd (update_screening_display s) = s \<or> snd (update_screening_display s) = update_results_summary s"
  by (simp add: update_screening_display_def split: option.splits)

lemma usd_fields [simp]:
  "all_articles (snd (update_screening_display s)) = all_articles s"
  "current_index (snd (update_screening_display s)) = current_index s"
  "included_articles (snd (update_screening_display s)) = included_articles s"
  "excluded_articles (snd (update_screening_display s)) = excluded_articles s"
  using usd_cases [of s] by (auto simp: update_results_summary_def)

lemma next_fields [simp]:
  "all_articles (snd (next_article s)) = all_articles s"
  "included_articles (snd (next_article s)) = included_articles s"
  "excluded_articles (snd (next_article s)) = excluded_articles s"
  "current_index (snd (next_article s)) =
     (if current_index s < int (length (all_articles s)) - 1 then current_index s + 1
      else current_index s)"
  by (simp_all add: next_article_def)

lemma previous_fields [simp]:
  "all_articles (snd (previous_article s)) = all_articles s"
  "included_articles (snd (previous_article s)) = included_articles s"
  "excluded_articles (snd (previous_article s)) = excluded_articles s"
  "current_index (snd (previous_article s)) =
     (if 0 < current_index s then current_index s - 1 else current_index s)"
  by (simp_all add: previous_article_def)

lemma include_fields:
  assumes "all_articles s \<noteq> []" "0 \<le> current_index s"
    "current_index s < int (length (all_articles s))"
    "all_articles s ! nat (current_index s) = Some a"
  shows "all_articles (snd (include_article now s)) =
           (all_articles s)[nat (current_index s) := Some (a\<lparr>Status := ''Included''\<rparr>)]"
    and "included_articles (snd (include_article now s)) =
           included_articles s @ [decide ''Included'' now a]"
    and "excluded_articles (snd (include_article now s)) = excluded_articles s"
    and "current_index (snd (include_article now s)) =
           (if current_index s < int (length (all_articles s)) - 1 then current_index s + 1
            else current_index s)"
  using assms by (simp_all add: include_article_def)

lemma exclude_fields:
  assumes "all_articles s \<noteq> []" "0 \<le> current_index s"
    "current_index s < int (length (all_articles s))"
    "all_articles s ! nat (current_index s) = Some a"
  shows "all_articles (snd (exclude_article now s)) =
           (all_articles s)[nat (current_index s) := Some (a\<lparr>Status := ''Excluded''\<rparr>)]"
    and "included_articles (snd (exclude_article now s)) = included_articles s"
    and "excluded_articles (snd (exclude_article now s)) =
           excluded_articles s @ [decide ''Excluded'' now a]"
    and "current_index (snd (exclude_article now s)) =
           (if current_index s < int (length (all_articles s)) - 1 then current_index s + 1
            else current_index s)"
  using assms by (simp_all add: exclude_article_def)

lemma return_to_fields:
  assumes "current_index s = i \<or> current_index s = i + 1" "0 \<le> i"
  shows "all_articles (return_to i s) = all_articles s"
    and "included_articles (return_to i s) = included_articles s"
    and "excluded_articles (return_to i s) = excluded_articles s"
    and "current_index (return_to i s) = i"
  using assms by (auto simp: return_to_def)

text \<open>
  C3, as the code has it. With the cursor on the last article, \<open>include_article\<close> and
  \<open>exclude_article\<close> append the dated copy to their list and set the status of the live
  entry; then \<open>next_article\<close> finds no further article: the cursor stays on the last
  index, the "Screening Complete" box is shown, and the session is still Reviewing. The
  same holds for \<open>next_article\<close> alone. The cursor never moves past the last article.
\<close>

theorem C3_last_index_stays:
  assumes "all_articles s \<noteq> []"
    and "current_index s = int (length (all_articles s)) - 1"
    and "all_articles s ! nat (current_index s) = Some a"
  shows "include_article now s =
           (None, s\<lparr>included_articles := included_articles s @ [decide ''Included'' now a],
                     all_articles := (all_articles s)
                        [nat (current_index s) := Some (a\<lparr>Status := ''Included''\<rparr>)],
                     dialogs := dialogs s @ [ShowInfo ''Screening Complete''
                        ''You have reviewed all articles! Check the Results tab.'']\<rparr>)
       \<and> exclude_article now s =
           (None, s\<lparr>excluded_articles := excluded_articles s @ [decide ''Excluded'' now a],
                     all_articles := (all_articles s)
                        [nat (current_index s) := Some (a\<lparr>Status := ''Excluded''\<rparr>)],
                     dialogs := dialogs s @ [ShowInfo ''Screening Complete''
                        ''You have reviewed all articles! Check the Results tab.'']\<rparr>)
       \<and> next_article s =
           (None, s\<lparr>dialogs := dialogs s @ [ShowInfo ''Screening Complete''
                        ''You have reviewed all articles! Check the Results tab.'']\<rparr>)
       \<and> current_index (snd (include_article now s)) = current_index s
       \<and> current_index (snd (exclude_article now s)) = current_index s
       \<and> phase_of (snd (include_article now s)) = Reviewing
       \<and> phase_of (snd (exclude_article now s)) = Reviewing
       \<and> phase_of (snd (next_article s)) = Reviewing"
  using assms
  by (simp add: include_article_def exclude_article_def next_article_def phase_of_def)

theorem C3_last_index_stays_witness:
  "all_articles (loaded 1) \<noteq> []
   \<and> current_index (loaded 1) = int (length (all_articles (loaded 1))) - 1
   \<and> all_articles (loaded 1) ! nat (current_index (loaded 1)) = Some (sample_article 1)
   \<and> current_index (snd (include_article ''t1'' (loaded 1))) = current_index (loaded 1)
   \<and> phase_of (snd (include_article ''t1'' (loaded 1))) = Reviewing
   \<and> phase_of (snd (next_article (loaded 1))) = Reviewing"
proof -
  have h1: "all_articles (loaded 1) \<noteq> []"
    by code_simp
  have h2: "current_index (loaded 1) = int (length (all_articles (loaded 1))) - 1"
    by code_simp
  have h3: "all_articles (loaded 1) ! nat (current_index (loaded 1)) = Some (sample_article 1)"
    by code_simp
  show ?thesis
    using C3_last_index_stays [OF h1 h2 h3, of "''t1''"] h1 h2 h3 by blast
qed

text \<open>
  The claim as written fails: on a batch of one article the cursor is on the last
  index; after \<open>include_article\<close>, and after \<open>next_article\<close>, the cursor is still 0 and
  the session is Reviewing, not Complete.
\<close>

theorem C3_counterexample:
  "phase_of (loaded 1) = Reviewing
   \<and> current_index (loaded 1) = int (length (all_articles (loaded 1))) - 1
   \<and> current_index (snd (include_article ''t1'' (loaded 1))) = 0
   \<and> phase_of (snd (include_article ''t1'' (loaded 1))) \<noteq> Complete
   \<and> phase_of (snd (exclude_article ''t1'' (loaded 1))) \<noteq> Complete
   \<and> phase_of (snd (next_article (loaded 1))) \<noteq> Complete"
  by code_simp

lemma redecide_both:
  assumes ne: "all_articles s \<noteq> []" and lo: "0 \<le> current_index s"
    and hi: "current_index s < int (length (all_articles s))"
    and at: "all_articles s ! nat (current_index s) = Some a"
  shows "let s' = apply_op (Exclude t2) (return_to (current_index s) (apply_op (Include t1) s))
         in included_articles s' = included_articles s @ [decide ''Included'' t1 a]
            \<and> excluded_articles s' = excluded_articles s @ [decide ''Excluded'' t2 a]
            \<and> Sr_No a \<in> Sr_No ` set (included_articles s')
            \<and> Sr_No a \<in> Sr_No ` set (excluded_articles s')"
    and "let s' = apply_op (Include t2) (return_to (current_index s) (apply_op (Exclude t1) s))
         in excluded_articles s' = excluded_articles s @ [decide ''Excluded'' t1 a]
            \<and> included_articles s' = included_articles s @ [decide ''Included'' t2 a]
            \<and> Sr_No a \<in> Sr_No ` set (included_articles s')
            \<and> Sr_No a \<in> Sr_No ` set (excluded_articles s')"
proof -
  let ?i = "current_index s"
  let ?s1 = "apply_op (Include t1) s"
  let ?s2 = "return_to ?i ?s1"
  have c1: "current_index ?s1 = ?i \<or> current_index ?s1 = ?i + 1"
    using include_fields(4) [OF ne lo hi at] by auto
  have a2: "all_articles ?s2 = (all_articles s)[nat ?i := Some (a\<lparr>Status := ''Included''\<rparr>)]"
    and i2: "included_articles ?s2 = included_articles s @ [decide ''Included'' t1 a]"
    and e2: "excluded_articles ?s2 = excluded_articles s"
    and c2: "current_index ?s2 = ?i"
    using return_to_fields [OF c1 lo] include_fields [OF ne lo hi at] by simp_all
  have at2: "all_articles ?s2 ! nat (current_index ?s2) = Some (a\<lparr>Status := ''Included''\<rparr>)"
    using a2 c2 lo hi by simp
  have ne2: "all_articles ?s2 \<noteq> []" and hi2: "current_index ?s2 < int (length (all_articles ?s2))"
    and lo2: "0 \<le> current_index ?s2"
    using a2 c2 ne lo hi by auto
  have "included_articles (apply_op (Exclude t2) ?s2) = included_articles s @ [decide ''Included'' t1 a]"
    and "excluded_articles (apply_op (Exclude t2) ?s2) = excluded_articles s @ [decide ''Excluded'' t2 a]"
    using exclude_fields(2,3) [OF ne2 lo2 hi2 at2] i2 e2 by (simp_all add: decide_def)
  then show "let s' = apply_op (Exclude t2) (return_to (current_index s) (apply_op (Include t1) s))
         in included_articles s' = included_articles s @ [decide ''Included'' t1 a]
            \<and> excluded_articles s' = excluded_articles s @ [decide ''Excluded'' t2 a]
            \<and> Sr_No a \<in> Sr_No ` set (included_articles s')
            \<and> Sr_No a \<in> Sr_No ` set (excluded_articles s')"
    by (simp add: decide_def image_iff)
next
  let ?i = "current_index s"
  let ?s1 = "apply_op (Exclude t1) s"
  let ?s2 = "return_to ?i ?s1"
  have c1: "current_index ?s1 = ?i \<or> current_index ?s1 = ?i + 1"
    using exclude_fields(4) [OF ne lo hi at] by auto
  have a2: "all_articles ?s2 = (all_articles s)[nat ?i := Some (a\<lparr>Status := ''Excluded''\<rparr>)]"
    and i2: "included_articles ?s2 = included_articles s"
    and e2: "excluded_articles ?s2 = excluded_articles s @ [decide ''Excluded'' t1 a]"
    and c2: "current_index ?s2 = ?i"
    using return_to_fields [OF c1 lo] exclude_fields [OF ne lo hi at] by simp_all
  have at2: "all_articles ?s2 ! nat (current_index ?s2) = Some (a\<lparr>Status := ''Excluded''\<rparr>)"
    using a2 c2 lo hi by simp
  have ne2: "all_articles ?s2 \<noteq> []" and hi2: "current_index ?s2 < int (length (all_articles ?s2))"
    and lo2: "0 \<le> current_index ?s2"
    using a2 c2 ne lo hi by auto
  have "excluded_articles (apply_op (Include t2) ?s2) = excluded_articles s @ [decide ''Excluded'' t1 a]"
    and "included_articles (apply_op (Include t2) ?s2) = included_articles s @ [decide ''Included'' t2 a]"
    using include_fields(2,3) [OF ne2 lo2 hi2 at2] i2 e2 by (simp_all add: decide_def)
  then show "let s' = apply_op (Include t2) (return_to (current_index s) (apply_op (Exclude t1) s))
         in excluded_articles s' = excluded_articles s @ [decide ''Excluded'' t1 a]
            \<and> included_articles s' = included_articles s @ [decide ''Included'' t2 a]
            \<and> Sr_No a \<in> Sr_No ` set (included_articles s')
            \<and> Sr_No a \<in> Sr_No ` set (excluded_articles s')"
    by (simp add: decide_def image_iff)
qed


text \<open>
  C4. Take a session with the cursor on an article \<open>a\<close>. Include it, navigate back to
  it, and exclude it: the included list has gained the included copy, which stays, and
  the excluded list has gained the excluded copy, so the number of \<open>a\<close> is in both
  lists. The same with the two decisions exchanged.
\<close>

theorem C4_redecide_keeps_both:
  assumes "all_articles s \<noteq> []" and "0 \<le> current_index s"
    and "current_index s < int (length (all_articles s))"
    and "all_articles s ! nat (current_index s) = Some a"
  shows "(let s' = apply_op (Exclude t2) (return_to (current_index s) (apply_op (Include t1) s))
          in included_articles s' = included_articles s @ [decide ''Included'' t1 a]
             \<and> excluded_articles s' = excluded_articles s @ [decide ''Excluded'' t2 a]
             \<and> Sr_No a \<in> Sr_No ` set (included_articles s')
             \<and> Sr_No a \<in> Sr_No ` set (excluded_articles s'))
       \<and> (let s' = apply_op (Include t2) (return_to (current_index s) (apply_op (Exclude t1) s))
          in excluded_articles s' = excluded_articles s @ [decide ''Excluded'' t1 a]
             \<and> included_articles s' = included_articles s @ [decide ''Included'' t2 a]
             \<and> Sr_No a \<in> Sr_No ` set (included_articles s')
             \<and> Sr_No a \<in> Sr_No ` set (excluded_articles s'))"
  using redecide_both [OF assms] by blast

theorem C4_redecide_keeps_both_witness:
  "all_articles (loaded 2) \<noteq> []
   \<and> 0 \<le> current_index (loaded 2)
   \<and> current_index (loaded 2) < int (length (all_articles (loaded 2)))
   \<and> all_articles (loaded 2) ! nat (current_index (loaded 2)) = Some (sample_article 1)
   \<and> Sr_No (sample_article 1) \<in> Sr_No ` set (included_articles
        (apply_op (Exclude ''t2'') (return_to (current_index (loaded 2))
           (apply_op (Include ''t1'') (loaded 2)))))
   \<and> Sr_No (sample_article 1) \<in> Sr_No ` set (excluded_articles
        (apply_op (Exclude ''t2'') (return_to (current_index (loaded 2))
           (apply_op (Include ''t1'') (loaded 2)))))"
proof -
  have h1: "all_articles (loaded 2) \<noteq> []"
    by code_simp
  have h2: "0 \<le> current_index (loaded 2)"
    by code_simp
  have h3: "current_index (loaded 2) < int (length (all_articles (loaded 2)))"
    by code_simp
  have h4: "all_articles (loaded 2) ! nat (current_index (loaded 2)) = Some (sample_article 1)"
    by code_simp
  show ?thesis
    using C4_redecide_keeps_both [OF h1 h2 h3 h4, of "''t2''" "''t1''", unfolded Let_def]
      h1 h2 h3 h4
    by blast
qed

text \<open>
  C10. There is a sequence of session operations after which the included and the
  excluded list together are longer than the article list, so that the pending count of
  the results summary, total - included - excluded, is negative. On a batch of two
  articles: include the first, go back, exclude it, go back, include it again. The
  summary then reads total 2, included 2, excluded 1, pending -1.
\<close>

theorem C10_pending_negative:
  "\<exists>ops. let s = run_ops ops (loaded 2)
         in length (all_articles s) < length (included_articles s) + length (excluded_articles s)
            \<and> pending_count s < 0
            \<and> stats_var s = Summary 2 2 1 (- 1)"
proof (rule exI [of _ "[Include ''t1'', Previous, Exclude ''t2'', Previous, Include ''t3'']"])
  show "let s = run_ops [Include ''t1'', Previous, Exclude ''t2'', Previous, Include ''t3'']
                  (loaded 2)
        in length (all_articles s) < length (included_articles s) + length (excluded_articles s)
           \<and> pending_count s < 0
           \<and> stats_var s = Summary 2 2 1 (- 1)"
    by code_simp
qed

section \<open>Properties of a retrieval\<close>

text \<open>
  The import and the snapshot touch neither the cursor nor the decision lists, and the
  aggregated batch does not depend on the session the retrieval starts from.
\<close>

lemma load_cochrane_keeps:
  "all_articles (snd (load_cochrane_csv env s)) = all_articles s"
  "current_index (snd (load_cochrane_csv env s)) = current_index s"
  "included_articles (snd (load_cochrane_csv env s)) = included_articles s"
  "excluded_articles (snd (load_cochrane_csv env s)) = excluded_articles s"
  by (simp_all add: load_cochrane_csv_def split: option.splits)

lemma load_cochrane_rows:
  "all_articles s = all_articles t \<Longrightarrow> fst (load_cochrane_csv env s) = fst (load_cochrane_csv env t)"
  by (simp add: load_cochrane_csv_def split: option.splits)

lemma aggregate_keeps:
  "current_index (aggregate env s) = current_index s"
  "included_articles (aggregate env s) = included_articles s"
  "excluded_articles (aggregate env s) = excluded_articles s"
  by (simp_all add: aggregate_def Let_def case_prod_beta load_cochrane_keeps)

lemma aggregate_all:
  "all_articles (aggregate env s) =
     (if pubmed_var env then search_pubmed env else [])
     @ (if cochrane_var env \<and> cochrane_file_var env \<noteq> []
        then fst (load_cochrane_csv env
                    (s\<lparr>all_articles := (if pubmed_var env then search_pubmed env else [])\<rparr>))
        else [])"
  by (simp add: aggregate_def Let_def case_prod_beta load_cochrane_keeps)

lemma aggregate_batch:
  "all_articles (aggregate env s) = all_articles (aggregate env t)"
  using load_cochrane_rows [of "s\<lparr>all_articles := (if pubmed_var env then search_pubmed env else [])\<rparr>"
      "t\<lparr>all_articles := (if pubmed_var env then search_pubmed env else [])\<rparr>" env]
  by (simp only: aggregate_all) simp

lemma save_fields:
  "all_articles (snd (save_search_results env s)) = all_articles s"
  "current_index (snd (save_search_results env s)) = current_index s"
  "included_articles (snd (save_search_results env s)) = included_articles s"
  "excluded_articles (snd (save_search_results env s)) = excluded_articles s"
  by (simp_all add: save_search_results_def)

lemma search_body_cases:
  "snd (search_body env s) = aggregate env s
   \<or> snd (search_body env s) = snd (save_search_results env (aggregate env s))
   \<or> snd (search_body env s) =
        snd (update_screening_display ((snd (save_search_results env (aggregate env s)))\<lparr>current_index := 0\<rparr>))"
  by (simp add: search_body_def Let_def case_prod_beta split: option.splits)

lemma search_body_keeps:
  "all_articles (snd (search_body env s)) = all_articles (aggregate env s)"
  "included_articles (snd (search_body env s)) = included_articles s"
  "excluded_articles (snd (search_body env s)) = excluded_articles s"
  using search_body_cases [of env s]
  by (auto simp: save_fields aggregate_keeps)

lemma search_body_cursor:
  "fst (search_body env s) = None \<Longrightarrow>
     current_index (snd (search_body env s)) =
       (if all_articles (aggregate env s) = [] then current_index s else 0)"
  by (auto simp: search_body_def Let_def case_prod_beta save_fields aggregate_keeps
      split: option.splits if_splits)

lemma perform_search_fields:
  "all_articles (perform_search env s) = all_articles (snd (search_body env s))"
  "current_index (perform_search env s) = current_index (snd (search_body env s))"
  "included_articles (perform_search env s) = included_articles (snd (search_body env s))"
  "excluded_articles (perform_search env s) = excluded_articles (snd (search_body env s))"
  by (simp_all add: perform_search_def case_prod_beta split: option.splits)


text \<open>
  C1, as the code has it. A retrieval replaces the article list by the batch it
  aggregates, whatever the session was, and leaves the included and the excluded list as
  they were: no statement of the program empties them. When the batch is empty the cursor
  keeps its value and the session is Empty. When the batch is not empty and the \<open>try\<close>
  block ends without an exception, the cursor is 0 and the session is Reviewing.
\<close>

theorem C1_search_replaces_batch:
  "all_articles (perform_search env s) = all_articles (perform_search env init_tool)
   \<and> included_articles (perform_search env s) = included_articles s
   \<and> excluded_articles (perform_search env s) = excluded_articles s
   \<and> (all_articles (perform_search env s) = [] \<longrightarrow>
        current_index (perform_search env s) = current_index s
        \<and> phase_of (perform_search env s) = Empty)
   \<and> (all_articles (perform_search env s) \<noteq> [] \<and> fst (search_body env s) = None \<longrightarrow>
        current_index (perform_search env s) = 0
        \<and> phase_of (perform_search env s) = Reviewing)"
proof -
  have b: "all_articles (perform_search env s) = all_articles (aggregate env s)"
    by (simp add: perform_search_fields search_body_keeps)
  have "all_articles (perform_search env init_tool) = all_articles (aggregate env s)"
    using aggregate_batch [of env init_tool s]
    by (simp add: perform_search_fields search_body_keeps)
  moreover have "fst (search_body env s) = None" if "all_articles (aggregate env s) = []"
    using that by (simp add: search_body_def)
  ultimately show ?thesis
    using b search_body_cursor [of env s]
    by (auto simp: perform_search_fields search_body_keeps phase_of_def)
qed

text \<open>
  The claim as written fails: a copy included before a second retrieval is still in the
  included list after it, and a retrieval that finds nothing leaves the cursor at 1.
\<close>

theorem C1_counterexample:
  "included_articles (apply_op (Include ''t1'') (loaded 2)) \<noteq> []
   \<and> included_articles (perform_search (csv_env 1) (apply_op (Include ''t1'') (loaded 2))) \<noteq> []
   \<and> current_index (perform_search off_env (apply_op (Include ''t1'') (loaded 2))) \<noteq> 0"
  by code_simp

theorem C1_search_replaces_batch_witness:
  "all_articles (perform_search (csv_env 1) (apply_op (Include ''t1'') (loaded 2))) \<noteq> []
   \<and> fst (search_body (csv_env 1) (apply_op (Include ''t1'') (loaded 2))) = None
   \<and> current_index (apply_op (Include ''t1'') (loaded 2)) = 1
   \<and> current_index (perform_search (csv_env 1) (apply_op (Include ''t1'') (loaded 2))) = 0
   \<and> phase_of (perform_search (csv_env 1) (apply_op (Include ''t1'') (loaded 2))) = Reviewing
   \<and> all_articles (perform_search off_env (loaded 2)) = []
   \<and> phase_of (perform_search off_env (loaded 2)) = Empty"
proof -
  have h1: "all_articles (perform_search (csv_env 1) (apply_op (Include ''t1'') (loaded 2))) \<noteq> []"
    by code_simp
  have h2: "fst (search_body (csv_env 1) (apply_op (Include ''t1'') (loaded 2))) = None"
    by code_simp
  have h3: "current_index (apply_op (Include ''t1'') (loaded 2)) = 1"
    by code_simp
  have h4: "all_articles (perform_search off_env (loaded 2)) = []"
    by code_simp
  show ?thesis
    using C1_search_replaces_batch [of "csv_env 1" "apply_op (Include ''t1'') (loaded 2)"]
      C1_search_replaces_batch [of off_env "loaded 2"] h1 h2 h3 h4
    by blast
qed

section \<open>Validation of the search form\<close>

text \<open>
  C7, as the code has it. \<open>start_search\<close> starts the worker exactly when the stripped
  query and the stripped contact are not empty and \<open>int\<close> accepts the cap; the worker
  then gets the stripped query and the parsed cap, whatever its sign. In every other case
  no worker is started and one error box is shown; in all cases nothing but the stored
  contact (and the box) changes.
\<close>

theorem C7_start_search_validation:
  "fst (start_search lim ev sv cap s) =
     (if strip sv = [] \<or> strip ev = [] then None
      else map_option (\<lambda>n. (strip sv, n)) (py_int lim cap))
   \<and> (fst (start_search lim ev sv cap s) = None \<longrightarrow>
        (\<exists>msg. snd (start_search lim ev sv cap s) =
           s\<lparr>email := strip ev, dialogs := dialogs s @ [ShowError ''Error'' msg]\<rparr>))
   \<and> (fst (start_search lim ev sv cap s) \<noteq> None \<longrightarrow>
        snd (start_search lim ev sv cap s) = s\<lparr>email := strip ev\<rparr>)"
  by (auto simp: start_search_def Let_def split: option.splits)

theorem C7_start_search_validation_witness:
  "fst (start_search 4300 ''a@b.org'' ''cancer'' ''ten'' init_tool) = None
   \<and> (\<exists>msg. snd (start_search 4300 ''a@b.org'' ''cancer'' ''ten'' init_tool) =
         init_tool\<lparr>email := strip ''a@b.org'',
                   dialogs := dialogs init_tool @ [ShowError ''Error'' msg]\<rparr>)
   \<and> fst (start_search 4300 ''a@b.org'' ''cancer'' ''25'' init_tool) \<noteq> None
   \<and> snd (start_search 4300 ''a@b.org'' ''cancer'' ''25'' init_tool) =
        init_tool\<lparr>email := strip ''a@b.org''\<rparr>"
proof -
  have h1: "fst (start_search 4300 ''a@b.org'' ''cancer'' ''ten'' init_tool) = None"
    by code_simp
  have h2: "fst (start_search 4300 ''a@b.org'' ''cancer'' ''25'' init_tool) \<noteq> None"
    by code_simp
  show ?thesis
    using C7_start_search_validation [of 4300 "''a@b.org''" "''cancer''" "''ten''" init_tool]
      C7_start_search_validation [of 4300 "''a@b.org''" "''cancer''" "''25''" init_tool] h1 h2
    by blast
qed

text \<open>
  The claim as written fails: the caps \<open>-5\<close> and \<open>0\<close> are not positive integers, and the
  worker is started with them.
\<close>

theorem C7_counterexample:
  "fst (start_search 4300 ''a@b.org'' ''cancer'' ''-5'' init_tool) = Some (''cancer'', - 5)
   \<and> fst (start_search 4300 ''a@b.org'' ''cancer'' ''0'' init_tool) = Some (''cancer'', 0)"
  by code_simp

section \<open>Highlighting\<close>

text \<open>
  The pieces that the split returns, joined, are the characters passed so far followed by
  the rest of the text: nothing is lost and nothing is added.
\<close>

lemma re_split_concat: "concat (re_split kws m acc rest) = rev acc @ rest"
proof (induction kws m acc rest rule: re_split.induct)
  case (1 kws m acc rest)
  show ?case
  proof (cases "first_alternative kws m rest")
    case None
    show ?thesis
    proof (cases rest)
      case Nil
      with None show ?thesis by (subst re_split.simps) simp
    next
      case (Cons c cs)
      with None 1 show ?thesis by (subst re_split.simps) simp
    qed
  next
    case (Some kw)
    with 1 show ?thesis by (subst re_split.simps) simp
  qed
qed

lemma highlight_calls_texts: "map fst (highlight_calls kws text tag) = (if kws = [] then [text] else re_split kws False [] text)"
  by (simp add: highlight_calls_def comp_def if_distrib [of fst] cong: if_cong)

lemma foldl_tk_insert: "map fst (foldl tk_insert w calls) = map fst w @ concat (map fst calls)"
  by (induction calls arbitrary: w) (simp_all add: tk_insert_def comp_def)

text \<open>
  C5. The texts of the insert calls of \<open>insert_text_with_highlights\<close>, joined in order,
  are the input text, and the widget gains exactly the characters of the text. Without
  keywords there is one call, with the whole text under the given tag. With the keyword
  \<open>cancer\<close> and the text \<open>Cancer treatment options\<close> the split gives an empty piece,
  \<open>Cancer\<close> and the remainder; inserting the empty piece adds nothing, so the widget
  holds the span \<open>Cancer\<close> under the highlight tag followed by the span
  \<open> treatment options\<close> under the given tag.
\<close>

theorem C5_highlighter_round_trip:
  "concat (map fst (highlight_calls kws text tag)) = text
   \<and> map fst (insert_text_with_highlights kws w text tag) = map fst w @ text
   \<and> highlight_calls [] text tag = [(text, tag)]
   \<and> insert_text_with_highlights [] w text tag = w @ map (\<lambda>c. (c, tag)) text
   \<and> highlight_calls [''cancer''] ''Cancer treatment options'' ''abstract''
       = [([], ''abstract''), (''Cancer'', ''highlight''), ('' treatment options'', ''abstract'')]
   \<and> spans (insert_text_with_highlights [''cancer''] [] ''Cancer treatment options'' ''abstract'')
       = [(''Cancer'', ''highlight''), ('' treatment options'', ''abstract'')]"
proof -
  have a: "concat (map fst (highlight_calls kws text tag)) = text"
    by (simp add: highlight_calls_texts re_split_concat)
  then have b: "map fst (insert_text_with_highlights kws w text tag) = map fst w @ text"
    by (simp add: insert_text_with_highlights_def foldl_tk_insert)
  have c: "highlight_calls [] text tag = [(text, tag)]"
    by (simp add: highlight_calls_def)
  then have d: "insert_text_with_highlights [] w text tag = w @ map (\<lambda>c. (c, tag)) text"
    by (simp add: insert_text_with_highlights_def tk_insert_def)
  have e: "highlight_calls [''cancer''] ''Cancer treatment options'' ''abstract''
       = [([], ''abstract''), (''Cancer'', ''highlight''), ('' treatment options'', ''abstract'')]"
    by code_simp
  have f: "spans (insert_text_with_highlights [''cancer''] [] ''Cancer treatment options'' ''abstract'')
       = [(''Cancer'', ''highlight''), ('' treatment options'', ''abstract'')]"
    by code_simp
  from a b c d e f show ?thesis by blast
qed

section \<open>The cursor\<close>

text \<open>
  Decisions keep the length of the article list and move the cursor by at most one step
  forward, and only when a further article follows.
\<close>

lemma decision_shape:
  "length (all_articles (snd (include_article now s))) = length (all_articles s)"
  "length (all_articles (snd (exclude_article now s))) = length (all_articles s)"
  "current_index (snd (include_article now s)) = current_index s
     \<or> (current_index (snd (include_article now s)) = current_index s + 1
         \<and> current_index s < int (length (all_articles s)) - 1)"
  "current_index (snd (exclude_article now s)) = current_index s
     \<or> (current_index (snd (exclude_article now s)) = current_index s + 1
         \<and> current_index s < int (length (all_articles s)) - 1)"
  by (simp_all add: include_article_def exclude_article_def split: option.splits)

lemma apply_op_in_range:
  assumes "0 \<le> current_index s" and "current_index s < int (length (all_articles s))"
  shows "length (all_articles (apply_op op s)) = length (all_articles s)
         \<and> 0 \<le> current_index (apply_op op s)
         \<and> current_index (apply_op op s) < int (length (all_articles (apply_op op s)))"
proof (cases op)
  case (Include now)
  then show ?thesis
    using assms decision_shape(1,3) [of now s] by auto
next
  case (Exclude now)
  then show ?thesis
    using assms decision_shape(2,4) [of now s] by auto
next
  case Next
  then show ?thesis using assms by auto
next
  case Previous
  then show ?thesis using assms by auto
qed

text \<open>
  C9, as the code has it. On a session without articles \<open>include_article\<close> and
  \<open>exclude_article\<close> raise nothing and change nothing; \<open>next_article\<close> (cursor not
  negative) raises nothing and only shows its notification; \<open>previous_article\<close> raises
  nothing but steps the cursor back when it is positive, and changes nothing when it is 0.
  With the cursor at 0, \<open>previous_article\<close> is a no-op, also when repeated. The four
  session operations never move a cursor that is a valid index out of the range of valid
  indices. A cursor past the last index can be met all the same, since a retrieval
  replaces the list before it resets the cursor; there \<open>include_article\<close> and
  \<open>exclude_article\<close> raise nothing and change nothing, and the display reads no entry.
\<close>

theorem C9_empty_session_and_cursor:
  "(all_articles s = [] \<longrightarrow>
      include_article now s = (None, s) \<and> exclude_article now s = (None, s))
   \<and> (all_articles s = [] \<and> 0 \<le> current_index s \<longrightarrow>
      next_article s =
        (None, s\<lparr>dialogs := dialogs s @ [ShowInfo ''Screening Complete''
                    ''You have reviewed all articles! Check the Results tab.'']\<rparr>))
   \<and> (all_articles s = [] \<longrightarrow>
      previous_article s =
        (None, s\<lparr>current_index :=
                    (if 0 < current_index s then current_index s - 1 else current_index s)\<rparr>))
   \<and> (current_index s = 0 \<longrightarrow>
      previous_article s = (None, s)
      \<and> previous_article (snd (previous_article s)) = (None, s))
   \<and> (0 \<le> current_index s \<and> current_index s < int (length (all_articles s)) \<longrightarrow>
      length (all_articles (apply_op op s)) = length (all_articles s)
      \<and> 0 \<le> current_index (apply_op op s)
      \<and> current_index (apply_op op s) < int (length (all_articles (apply_op op s))))
   \<and> (int (length (all_articles s)) \<le> current_index s \<longrightarrow>
      include_article now s = (None, s) \<and> exclude_article now s = (None, s)
      \<and> display_current_article s = None)"
proof -
  have "include_article now s = (None, s) \<and> exclude_article now s = (None, s)"
    if "all_articles s = [] \<or> int (length (all_articles s)) \<le> current_index s"
    using that by (auto simp: include_article_def exclude_article_def)
  moreover have "display_current_article s = None"
    if "int (length (all_articles s)) \<le> current_index s"
    using that by (simp add: display_current_article_def)
  moreover have "previous_article s =
        (None, s\<lparr>current_index :=
                    (if 0 < current_index s then current_index s - 1 else current_index s)\<rparr>)"
    if "all_articles s = []"
    using that by (simp add: previous_article_def update_screening_display_def)
  moreover have "previous_article s = (None, s)
      \<and> previous_article (snd (previous_article s)) = (None, s)" if "current_index s = 0"
    using that by (simp add: previous_article_def)
  moreover have "next_article s =
        (None, s\<lparr>dialogs := dialogs s @ [ShowInfo ''Screening Complete''
                    ''You have reviewed all articles! Check the Results tab.'']\<rparr>)"
    if "all_articles s = []" "0 \<le> current_index s"
    using that by (simp add: next_article_def)
  ultimately show ?thesis
    using apply_op_in_range [of s op] by blast
qed

text \<open>
  The claim as written fails. After a retrieval of three articles, two steps forward and
  a retrieval that finds nothing, the session is Empty with the cursor at 2, and
  \<open>previous_article\<close> moves the cursor to 1. And the cursor is met outside the valid
  indices of a list that is not empty: during a retrieval of one article, after the list
  was replaced (lines 252-268), the list has one article and the cursor is still 2; when
  that retrieval then fails to write its snapshot, the handler is reached before the
  cursor is reset, and this is the state it ends in.
\<close>

theorem C9_counterexample:
  "all_articles (perform_search off_env (apply_op Next (apply_op Next (loaded 3)))) = []
   \<and> current_index (perform_search off_env (apply_op Next (apply_op Next (loaded 3)))) = 2
   \<and> current_index (snd (previous_article
        (perform_search off_env (apply_op Next (apply_op Next (loaded 3)))))) = 1
   \<and> length (all_articles (aggregate (csv_env 1) (apply_op Next (apply_op Next (loaded 3))))) = 1
   \<and> current_index (aggregate (csv_env 1) (apply_op Next (apply_op Next (loaded 3)))) = 2
   \<and> length (all_articles (perform_search ((csv_env 1)\<lparr>save_ok := False\<rparr>)
        (apply_op Next (apply_op Next (loaded 3))))) = 1
   \<and> current_index (perform_search ((csv_env 1)\<lparr>save_ok := False\<rparr>)
        (apply_op Next (apply_op Next (loaded 3)))) = 2"
  by code_simp

theorem C9_empty_session_and_cursor_witness:
  "all_articles init_tool = [] \<and> current_index init_tool = 0
   \<and> include_article ''t1'' init_tool = (None, init_tool)
   \<and> previous_article init_tool = (None, init_tool)
   \<and> 0 \<le> current_index (loaded 2)
   \<and> current_index (loaded 2) < int (length (all_articles (loaded 2)))
   \<and> current_index (apply_op Next (loaded 2)) < int (length (all_articles (apply_op Next (loaded 2))))
   \<and> int (length (all_articles (aggregate (csv_env 1) (apply_op Next (apply_op Next (loaded 3))))))
        \<le> current_index (aggregate (csv_env 1) (apply_op Next (apply_op Next (loaded 3))))
   \<and> include_article ''t1'' (aggregate (csv_env 1) (apply_op Next (apply_op Next (loaded 3))))
        = (None, aggregate (csv_env 1) (apply_op Next (apply_op Next (loaded 3))))"
proof -
  have h1: "all_articles init_tool = []" and h2: "current_index init_tool = 0"
    by (simp_all add: init_tool_def)
  have h3: "0 \<le> current_index (loaded 2)"
    by code_simp
  have h4: "current_index (loaded 2) < int (length (all_articles (loaded 2)))"
    by code_simp
  have h5: "int (length (all_articles (aggregate (csv_env 1) (apply_op Next (apply_op Next (loaded 3))))))
        \<le> current_index (aggregate (csv_env 1) (apply_op Next (apply_op Next (loaded 3))))"
    by code_simp
  show ?thesis
    using C9_empty_session_and_cursor [of init_tool "''t1''" Next]
      C9_empty_session_and_cursor [of "loaded 2" "''t1''" Next]
      C9_empty_session_and_cursor
        [of "aggregate (csv_env 1) (apply_op Next (apply_op Next (loaded 3)))" "''t1''" Next]
      h1 h2 h3 h4 h5
    by blast
qed

section \<open>Exports\<close>






section \<open>Records that do not parse\<close>

text \<open>
  C2 does not hold of the code. A record without \<open>MedlineCitation\<close> makes
  \<open>parse_pubmed_record\<close> return \<open>None\<close>; \<open>search_pubmed\<close> appends that \<open>None\<close>, so the
  batch has an entry for the record; building the data frame of the snapshot then
  raises on it, the retrieval ends in its handler with the "Search Error" box, no
  snapshot is written, and the screening display is never initialised. The raw XML path
  does the same with a record without \<open>Article\<close> element.
\<close>

theorem C2_unparsed_record_kept:
  "parse_pubmed_record bad_record 2 = None
   \<and> search_pubmed (bio_env [good_record, bad_record])
       = [parse_pubmed_record good_record 1, None]
   \<and> length (all_articles (perform_search (bio_env [good_record, bad_record]) init_tool)) = 2
   \<and> None \<in> set (all_articles (perform_search (bio_env [good_record, bad_record]) init_tool))
   \<and> fst (search_body (bio_env [good_record, bad_record]) init_tool) = Some AttributeError
   \<and> files (perform_search (bio_env [good_record, bad_record]) init_tool) = []
   \<and> dialogs (perform_search (bio_env [good_record, bad_record]) init_tool)
       = [ShowError ''Search Error'' ''An error occurred during search: '']
   \<and> stats_var (perform_search (bio_env [good_record, bad_record]) init_tool) = NoScreening
   \<and> parse_batch [\<lparr>x_article = None, x_pmid = None\<rparr>] [] = [None]"
  by code_simp

section \<open>Sequence numbers\<close>

text \<open>
  C6 does not hold of the code. The number of an imported row is computed from the label
  that the data frame gives the row, not from the row's position. For the file
  \<open>Title\<close> / \<open>5,Trial A\<close> / \<open>5,Trial B\<close> both rows have the label 5, and both articles
  get the number 0 + 5 + 1 = 6: the numbers of the batch are neither pairwise different
  nor increasing, and the first row does not have the number 1 that its position gives.
\<close>

theorem C6_label_numbers:
  "map Sr_No (parsed (all_articles (perform_search labelled_env init_tool))) = [6, 6]
   \<and> map Title (parsed (all_articles (perform_search labelled_env init_tool)))
       = [Some ''Trial A'', Some ''Trial B'']
   \<and> \<not> distinct (map Sr_No (parsed (all_articles (perform_search labelled_env init_tool))))
   \<and> \<not> sorted_wrt (<) (map Sr_No (parsed (all_articles (perform_search labelled_env init_tool))))"
  by code_simp

text \<open>
  With the labels that \<open>pd.read_csv\<close> gives by default, the numbering is as intended:
  every entry of the batch that is a dictionary carries its position plus one.
\<close>

lemma numbered_from_append:
  "numbered_from n src (xs @ ys) =
     (numbered_from n src xs \<and> numbered_from (n + length xs) src ys)"
  by (induction n src xs rule: numbered_from.induct) simp_all

lemma parsed_append: "parsed (xs @ ys) = parsed xs @ parsed ys"
  by (induction xs rule: parsed.induct) simp_all

lemma numbered_bounds:
  "numbered_from n src es \<Longrightarrow> a \<in> set (parsed es) \<Longrightarrow>
     int n < Sr_No a \<and> Sr_No a \<le> int n + int (length es) \<and> Source a = src"
  by (induction n src es rule: numbered_from.induct) auto

lemma numbered_sorted:
  "numbered_from n src es \<Longrightarrow> sorted_wrt (<) (map Sr_No (parsed es))"
proof (induction n src es rule: numbered_from.induct)
  case (3 n src a es)
  then have "\<forall>b \<in> set (parsed es). Sr_No a < Sr_No b"
    using numbered_bounds [of "Suc n" src es] by fastforce
  with 3 show ?case by simp
qed simp_all

lemma parse_record_number:
  "numbered_from n ''PubMed'' [parse_pubmed_record r (int n + 1)]"
  "numbered_from n ''PubMed'' [parse_pubmed_xml x (int n + 1)]"
  by (simp_all add: parse_pubmed_record_def parse_pubmed_xml_def Let_def split: option.splits)

lemma bio_numbered:
  "numbered_from n ''PubMed''
     (map (\<lambda>(i, r). parse_pubmed_record r (int i + 1)) (enumerate n records))"
proof (induction records arbitrary: n)
  case Nil
  show ?case by simp
next
  case (Cons r records)
  show ?case
    using parse_record_number(1) [of n r] Cons [of "Suc n"]
      numbered_from_append [of n "''PubMed''" "[parse_pubmed_record r (int n + 1)]"]
    by simp
qed

lemma parse_batch_numbered:
  "numbered_from 0 ''PubMed'' articles \<Longrightarrow> numbered_from 0 ''PubMed'' (parse_batch rs articles)"
proof (induction rs arbitrary: articles)
  case Nil
  then show ?case by simp
next
  case (Cons r rs)
  have "numbered_from 0 ''PubMed'' (articles @ [parse_pubmed_xml r (int (length articles) + 1)])"
    using Cons.prems parse_record_number(2) [of "length articles" r]
    by (simp add: numbered_from_append)
  then show ?case using Cons.IH by simp
qed

lemma fetch_batches_numbered:
  "numbered_from 0 ''PubMed'' articles \<Longrightarrow> numbered_from 0 ''PubMed'' (fetch_batches bs articles)"
  by (induction bs articles rule: fetch_batches.induct) (simp_all add: parse_batch_numbered)

lemma search_pubmed_numbered: "numbered_from 0 ''PubMed'' (search_pubmed env)"
  using bio_numbered [of 0] fetch_batches_numbered [of "[]"]
  by (auto simp: search_pubmed_def search_pubmed_direct_def
      split: option.splits direct_response.splits)

lemma cochrane_rows_default:
  "numbered_from (m + n) ''Cochrane''
     (cochrane_rows cols m (zip (map (\<lambda>i. IntLabel (int i)) [n..<n + length rs]) rs))"
proof (induction rs arbitrary: n)
  case Nil
  show ?case by simp
next
  case (Cons r rs)
  have "[n..<n + length (r # rs)] = n # [Suc n..<Suc n + length rs]"
    by (subst upt_rec) simp
  then show ?case
    using Cons [of "Suc n"] by (simp add: cochrane_article_def Let_def)
qed

lemma default_index_numbers:
  assumes "\<forall>df. csv_file env = Some df \<longrightarrow> index df = default_index (length (rows df))"
  shows "sorted_wrt (<) (map Sr_No (parsed (all_articles (perform_search env s))))
         \<and> distinct (map Sr_No (parsed (all_articles (perform_search env s))))"
proof -
  let ?P = "provider_part env" and ?C = "import_part env"
  have p: "numbered_from 0 ''PubMed'' ?P"
    by (simp add: provider_part_def search_pubmed_numbered)
  have c: "numbered_from (length ?P) ''Cochrane'' ?C"
    using assms cochrane_rows_default [of "length ?P" 0]
    by (auto simp: import_part_def load_cochrane_csv_def default_index_def split: option.splits)
  have b: "all_articles (perform_search env s) = ?P @ ?C"
    using load_cochrane_rows [of "s\<lparr>all_articles := (if pubmed_var env then search_pubmed env else [])\<rparr>"
      "init_tool\<lparr>all_articles := (if pubmed_var env then search_pubmed env else [])\<rparr>" env]
    by (simp add: perform_search_fields search_body_keeps aggregate_all provider_part_def
        import_part_def)
  have lo: "\<forall>a \<in> set (parsed ?P). Sr_No a \<le> int (length ?P)"
    using numbered_bounds [OF p] by simp
  have hi: "\<forall>b \<in> set (parsed ?C). int (length ?P) < Sr_No b"
    using numbered_bounds [OF c] by simp
  have "sorted_wrt (<) (map Sr_No (parsed ?P) @ map Sr_No (parsed ?C))"
    using numbered_sorted [OF p] numbered_sorted [OF c] lo hi
    by (fastforce simp: sorted_wrt_append)
  then have "sorted_wrt (<) (map Sr_No (parsed (?P @ ?C)))"
    by (simp add: parsed_append)
  then show ?thesis
    by (simp add: b strict_sorted_iff)
qed

end
